theory Spec2Isabelle
  imports Complex_Main
begin

section \<open>Values of the rendering layer\<close>

text \<open>
  The program is a single React component (\<^verbatim>\<open>App.tsx\<close>, in two revisions that share
  the functions modelled here). JavaScript numbers are modelled as \<^typ>\<open>real\<close>:
  arithmetic is exact and there are no infinities. A plot array may hold \<^verbatim>\<open>null\<close>
  (a line break for the plotting library), a read past the end of an array yields
  \<^verbatim>\<open>undefined\<close>, and arithmetic on \<^verbatim>\<open>undefined\<close> yields NaN; these are
  the other values of \<open>jsval\<close>.
\<close>

datatype jsval = Num real | NaN | Null | Undefined

definition js_nth :: "real list \<Rightarrow> nat \<Rightarrow> jsval" where
  \<comment> \<open>\<^verbatim>\<open>xs[i]\<close> on a number array.\<close>
  "js_nth xs i = (if i < length xs then Num (xs ! i) else Undefined)"

definition js_get :: "jsval list \<Rightarrow> nat \<Rightarrow> jsval" where
  \<comment> \<open>\<^verbatim>\<open>xs[i]\<close> on an array of values.\<close>
  "js_get xs i = (if i < length xs then xs ! i else Undefined)"

fun js_number :: "jsval \<Rightarrow> real option" where
  \<comment> \<open>The number an arithmetic operator sees; \<open>None\<close> is NaN.\<close>
  "js_number (Num a) = Some a"
| "js_number Null = Some 0"
| "js_number NaN = None"
| "js_number Undefined = None"

definition js_add :: "jsval \<Rightarrow> jsval \<Rightarrow> jsval" where
  "js_add a b = (case (js_number a, js_number b) of (Some u, Some v) \<Rightarrow> Num (u + v) | _ \<Rightarrow> NaN)"

definition js_mul :: "jsval \<Rightarrow> jsval \<Rightarrow> jsval" where
  "js_mul a b = (case (js_number a, js_number b) of (Some u, Some v) \<Rightarrow> Num (u * v) | _ \<Rightarrow> NaN)"

definition js_half :: "jsval \<Rightarrow> jsval" where
  \<comment> \<open>\<^verbatim>\<open>a / 2\<close>\<close>
  "js_half a = (case js_number a of Some u \<Rightarrow> Num (u / 2) | None \<Rightarrow> NaN)"

section \<open>Stick-spectrum builder\<close>

record StickData =
  stick_x :: "jsval list"
  stick_y :: "jsval list"
  stick_hx :: "jsval list"
  stick_hy :: "jsval list"

definition isHighlighted :: "real list \<Rightarrow> real \<Rightarrow> bool" where
  \<comment> \<open>\<^verbatim>\<open>highlightMzs.some(m => Math.abs(m - mz) < 0.1)\<close>\<close>
  "isHighlighted highlightMzs mz = list_ex (\<lambda>m. \<bar>m - mz\<bar> < 1 / 10) highlightMzs"

function stick_loop :: "real list \<Rightarrow> real list \<Rightarrow> real list \<Rightarrow> nat \<Rightarrow> StickData \<Rightarrow> StickData" where
  "stick_loop mzs ints highlightMzs i acc =
     (if i < length mzs then
        (let mz = mzs ! i;
             intensity = js_nth ints i
         in if isHighlighted highlightMzs mz
            then stick_loop mzs ints highlightMzs (Suc i)
                   (acc\<lparr>stick_hx := stick_hx acc @ [Num mz, Num mz, Null],
                        stick_hy := stick_hy acc @ [Num 0, intensity, Null]\<rparr>)
            else stick_loop mzs ints highlightMzs (Suc i)
                   (acc\<lparr>stick_x := stick_x acc @ [Num mz, Num mz, Null],
                        stick_y := stick_y acc @ [Num 0, intensity, Null]\<rparr>))
      else acc)"
  by pat_completeness auto
termination
  by (relation "measure (\<lambda>(mzs, ints, highlightMzs, i, acc). length mzs - i)") auto

declare stick_loop.simps [simp del]

definition getStickData :: "real list \<Rightarrow> real list \<Rightarrow> real list \<Rightarrow> StickData" where
  "getStickData mzs ints highlightMzs =
     stick_loop mzs ints highlightMzs 0
       \<lparr>stick_x = [], stick_y = [], stick_hx = [], stick_hy = []\<rparr>"

text \<open>
  The builder as the specification words it: every peak contributes the three samples
  \<open>(mz, 0)\<close>, \<open>(mz, intensity)\<close> and a break, to the channel its m/z selects.
\<close>

definition peak_xs :: "(real \<times> real) list \<Rightarrow> jsval list" where
  "peak_xs ps = concat (map (\<lambda>(mz, intensity). [Num mz, Num mz, Null]) ps)"

definition peak_ys :: "(real \<times> real) list \<Rightarrow> jsval list" where
  "peak_ys ps = concat (map (\<lambda>(mz, intensity). [Num 0, Num intensity, Null]) ps)"

definition stick_spec :: "real list \<Rightarrow> real list \<Rightarrow> real list \<Rightarrow> StickData" where
  "stick_spec mzs ints highlightMzs =
     (let normal = filter (\<lambda>(mz, intensity). \<not> isHighlighted highlightMzs mz) (zip mzs ints);
          marked = filter (\<lambda>(mz, intensity). isHighlighted highlightMzs mz) (zip mzs ints)
      in \<lparr>stick_x = peak_xs normal, stick_y = peak_ys normal,
          stick_hx = peak_xs marked, stick_hy = peak_ys marked\<rparr>)"

section \<open>Data received from the backend\<close>

record ChromatogramResponse =
  resp_rts :: "real list"
  resp_ints :: "real list"

record SpectrumResponse =
  spec_mzs :: "real list"
  spec_ints :: "real list"
  spec_rt :: real
  has_ms2 :: "real list option"

record MS2Response =
  ms2_mzs :: "real list"
  ms2_ints :: "real list"
  ms2_rt :: real
  precursor_mz :: real

record Scan =
  scan_id :: int
  scan_rt :: real
  tic :: real
  base_peak_mz :: real
  base_peak_int :: real

text \<open>
  A \<^verbatim>\<open>fetch\<close> either rejects (with the error's message) or resolves to a response
  that is 2xx or not; \<^verbatim>\<open>response.json()\<close> either rejects (with a message) or yields
  the body. A 2xx body that parses is taken to have the shape its TypeScript
  annotation declares.
\<close>

datatype 'a json = JsonError string | Json 'a

datatype 'a reply = Rejected string | NotOk "string option json" | Ok "'a json"

definition or_default :: "string option \<Rightarrow> string \<Rightarrow> string" where
  \<comment> \<open>\<^verbatim>\<open>detail || fallback\<close>: an absent or empty detail gives the fallback.\<close>
  "or_default detail fallback =
     (case detail of None \<Rightarrow> fallback | Some d \<Rightarrow> if d = [] then fallback else d)"

section \<open>View state\<close>

record Chromatogram =
  chrom_x :: "real list"
  chrom_y :: "real list"

record IntegratedPoints =
  pts_x :: "real list"
  pts_y :: "jsval list"

text \<open>
  The \<^verbatim>\<open>useState\<close> cells of the component that the modelled functions read or
  write, and the browser console as the list of messages passed to
  \<^verbatim>\<open>console.error\<close>. \<open>scanListRef\<close> stands for the identity of the array that
  \<open>scanList\<close> holds: every \<^verbatim>\<open>setScanList\<close> of the program stores a new array (a
  literal \<^verbatim>\<open>[]\<close> or the body of a response), and the dependency list of an effect
  compares arrays by identity.
\<close>

record AppState =
  manualPath :: string
  currentPath :: string
  selectedFile :: string
  ticData :: "Chromatogram option"
  chromData :: "Chromatogram option"
  spectrumData :: "SpectrumResponse option"
  loading :: bool
  error :: "string option"
  plotRevision :: int
  scanList :: "Scan list"
  scanListRef :: nat
  currentScanIdx :: int
  chromXRange :: "(real \<times> real) option"
  ctrlPressed :: bool
  msXRange :: "(real \<times> real) option"
  ms2Data :: "MS2Response option"
  ms2XRange :: "(real \<times> real) option"
  ms2Loading :: bool
  integrationMode :: bool
  integratedArea :: jsval
  integratedPoints :: "IntegratedPoints option"
  console :: "string list"

definition initialState :: AppState where
  "initialState =
     \<lparr>manualPath = [], currentPath = [], selectedFile = [], ticData = None, chromData = None,
      spectrumData = None, loading = False, error = None, plotRevision = 0, scanList = [],
      scanListRef = 0, currentScanIdx = - 1, chromXRange = None, ctrlPressed = False, msXRange = None,
      ms2Data = None, ms2XRange = None, ms2Loading = False, integrationMode = False,
      integratedArea = Null, integratedPoints = None, console = []\<rparr>"

definition activeChromData :: "AppState \<Rightarrow> Chromatogram option" where
  \<comment> \<open>\<^verbatim>\<open>chromData || ticData\<close>\<close>
  "activeChromData s = (case chromData s of Some c \<Rightarrow> Some c | None \<Rightarrow> ticData s)"

section \<open>Closest-scan resolution\<close>

text \<open>
  \<^verbatim>\<open>scanList.reduce((prev, curr, idx) =>
     Math.abs(curr.rt - t) < Math.abs(scanList[prev].rt - t) ? idx : prev, 0)\<close>
\<close>

fun closest_loop :: "Scan list \<Rightarrow> real \<Rightarrow> Scan list \<Rightarrow> nat \<Rightarrow> nat \<Rightarrow> nat" where
  "closest_loop sl t [] idx prev = prev"
| "closest_loop sl t (cur # rest) idx prev =
     closest_loop sl t rest (Suc idx)
       (if \<bar>scan_rt cur - t\<bar> < \<bar>scan_rt (sl ! prev) - t\<bar> then idx else prev)"

definition closestIdx :: "Scan list \<Rightarrow> real \<Rightarrow> nat" where
  "closestIdx sl t = closest_loop sl t sl 0 0"

section \<open>Peak integration\<close>

text \<open>
  The selection event of the plotting library: \<open>sel_points\<close> holds the x of every
  selected point when the event has a \<^verbatim>\<open>points\<close> array, \<open>sel_range\<close> is present
  when the event has a \<^verbatim>\<open>range\<close> object and holds its \<^verbatim>\<open>x\<close> pair when that
  exists.
\<close>

record SelectEvent =
  sel_points :: "real list option"
  sel_range :: "(real \<times> real) option option"

definition rangeX_of :: "SelectEvent \<Rightarrow> (real \<times> real) option" where
  "rangeX_of e =
     (case sel_range e of
        Some (Some r) \<Rightarrow> Some r
      | _ \<Rightarrow> (case sel_points e of
                Some (p # ps) \<Rightarrow> Some (fold min ps p, fold max ps p)
              | _ \<Rightarrow> None))"

function select_loop ::
  "Chromatogram \<Rightarrow> real \<Rightarrow> real \<Rightarrow> nat \<Rightarrow> real list \<times> jsval list \<Rightarrow> real list \<times> jsval list" where
  "select_loop c minX maxX i (selectedX, selectedY) =
     (if i < length (chrom_x c) then
        (let rtSec = chrom_x c ! i;
             rtMin = rtSec / 60
         in if rtMin \<ge> minX \<and> rtMin \<le> maxX
            then select_loop c minX maxX (Suc i)
                   (selectedX @ [rtMin], selectedY @ [js_nth (chrom_y c) i])
            else select_loop c minX maxX (Suc i) (selectedX, selectedY))
      else (selectedX, selectedY))"
  by pat_completeness auto
termination
  by (relation "measure (\<lambda>(c, minX, maxX, i, acc). length (chrom_x c) - i)") auto

declare select_loop.simps [simp del]

function area_loop :: "real list \<Rightarrow> jsval list \<Rightarrow> nat \<Rightarrow> jsval \<Rightarrow> jsval" where
  "area_loop selectedX selectedY i area =
     (if int i < int (length selectedX) - 1 then
        (let x1 = selectedX ! i * 60;
             x2 = selectedX ! (i + 1) * 60;
             y1 = js_get selectedY i;
             y2 = js_get selectedY (i + 1)
         in area_loop selectedX selectedY (Suc i)
              (js_add area (js_mul (js_half (js_add y1 y2)) (Num (x2 - x1)))))
      else area)"
  by pat_completeness auto
termination
  by (relation "measure (\<lambda>(selectedX, selectedY, i, area). length selectedX - i)") auto

declare area_loop.simps [simp del]

definition selected_samples :: "SelectEvent \<Rightarrow> AppState \<Rightarrow> real list \<times> jsval list" where
  "selected_samples e s =
     (case rangeX_of e of
        None \<Rightarrow> ([], [])
      | Some (minX, maxX) \<Rightarrow>
          (case activeChromData s of
             None \<Rightarrow> ([], [])
           | Some c \<Rightarrow> select_loop c minX maxX 0 ([], [])))"

definition calculateIntegration :: "SelectEvent option \<Rightarrow> AppState \<Rightarrow> AppState" where
  "calculateIntegration event s =
     (case event of
        None \<Rightarrow> s
      | Some e \<Rightarrow>
          if sel_points e = None \<and> sel_range e = None then s
          else (case selected_samples e s of
                  (selectedX, selectedY) \<Rightarrow>
                    if length selectedX < 2 then s
                    else s\<lparr>integratedArea := area_loop selectedX selectedY 0 (Num 0),
                           integratedPoints := Some \<lparr>pts_x = selectedX, pts_y = selectedY\<rparr>\<rparr>))"

text \<open>
  The integration as the specification words it: the samples whose time in minutes
  lies in the range, and the composite trapezoidal rule over them with x in seconds.
\<close>

definition qualifying :: "real \<Rightarrow> real \<Rightarrow> Chromatogram \<Rightarrow> (real \<times> real) list" where
  "qualifying minX maxX c =
     filter (\<lambda>(t, v). minX \<le> t / 60 \<and> t / 60 \<le> maxX) (zip (chrom_x c) (chrom_y c))"

fun trapezoid_area :: "(real \<times> real) list \<Rightarrow> real" where
  "trapezoid_area ((x1, y1) # (x2, y2) # ps) =
     (y1 + y2) / 2 * (x2 - x1) + trapezoid_area ((x2, y2) # ps)"
| "trapezoid_area ps = 0"

definition qualifying_times :: "SelectEvent option \<Rightarrow> AppState \<Rightarrow> real list" where
  "qualifying_times event s =
     (case event of
        None \<Rightarrow> []
      | Some e \<Rightarrow>
          (case (rangeX_of e, activeChromData s) of
             (Some (minX, maxX), Some c) \<Rightarrow>
               filter (\<lambda>t. minX \<le> t / 60 \<and> t / 60 \<le> maxX) (chrom_x c)
           | _ \<Rightarrow> []))"

section \<open>Asynchronous handlers\<close>

text \<open>
  A handler is a process: a run of state updates up to its next \<^verbatim>\<open>await\<close> of a
  network request, whose continuation takes the reply (the \<^verbatim>\<open>fetch\<close> and the
  reading of its body are one step). \<open>Fork p k\<close> is the call of an async function
  \<open>p\<close> that is not awaited: \<open>p\<close> runs up to its first \<^verbatim>\<open>await\<close>, then the
  caller goes on with \<open>k\<close>. An async function that the caller awaits takes the rest
  of the caller as its last argument. A handler reads the state cells of the render
  that created it (its last argument \<open>snap\<close>); its updates go to the live state.
  Which render that is depends on how the handler is attached (see the event loop).
  Scrolling and console output other than \<^verbatim>\<open>console.error\<close> are not modelled.
\<close>

datatype proc =
    Done
  | Upd "AppState \<Rightarrow> AppState" proc
  | Fork proc proc
  | AwaitUpload string "string reply \<Rightarrow> proc"
  | AwaitDemoPath "string reply \<Rightarrow> proc"
  | AwaitTic string "ChromatogramResponse reply \<Rightarrow> proc"
  | AwaitScanList string "Scan list reply \<Rightarrow> proc"
  | AwaitSpectrum string real "SpectrumResponse reply \<Rightarrow> proc"
  | AwaitMs2 string real real "MS2Response reply \<Rightarrow> proc"

definition fetchScanList :: "string \<Rightarrow> proc \<Rightarrow> proc" where
  "fetchScanList filepath k =
     Upd (\<lambda>s. s\<lparr>loading := True\<rparr>)
       (AwaitScanList filepath (\<lambda>r.
          case r of
            Rejected msg \<Rightarrow> Upd (\<lambda>s. s\<lparr>console := console s @ [msg], loading := False\<rparr>) k
          | NotOk b \<Rightarrow>
              Upd (\<lambda>s. s\<lparr>console := console s @ [''Failed to get scan list''],
                         loading := False\<rparr>) k
          | Ok (JsonError msg) \<Rightarrow>
              Upd (\<lambda>s. s\<lparr>console := console s @ [msg], loading := False\<rparr>) k
          | Ok (Json data) \<Rightarrow>
              Upd (\<lambda>s. s\<lparr>scanList := data, scanListRef := Suc (scanListRef s),
                         loading := False\<rparr>) k))"

definition fetchTic :: "string \<Rightarrow> proc \<Rightarrow> proc" where
  "fetchTic filepath k =
     Upd (\<lambda>s. s\<lparr>loading := True, chromXRange := None\<rparr>)
       (AwaitTic filepath (\<lambda>r.
          case r of
            Rejected msg \<Rightarrow> Upd (\<lambda>s. s\<lparr>error := Some msg, loading := False\<rparr>) k
          | NotOk (JsonError msg) \<Rightarrow>
              Upd (\<lambda>s. s\<lparr>error := Some ''Failed to get TIC'', loading := False\<rparr>) k
          | NotOk (Json detail) \<Rightarrow>
              Upd (\<lambda>s. s\<lparr>error := Some (or_default detail ''Failed to get TIC''),
                         loading := False\<rparr>) k
          | Ok (JsonError msg) \<Rightarrow> Upd (\<lambda>s. s\<lparr>error := Some msg, loading := False\<rparr>) k
          | Ok (Json data) \<Rightarrow>
              Upd (\<lambda>s. s\<lparr>ticData := Some \<lparr>chrom_x = resp_rts data, chrom_y = resp_ints data\<rparr>,
                         plotRevision := plotRevision s + 1, loading := False\<rparr>) k))"

text \<open>The local upload; \<open>file\<close> is the first file of the input element, if any.\<close>

definition handleFileUpload :: "string option \<Rightarrow> AppState \<Rightarrow> proc" where
  "handleFileUpload file snap =
     (case file of
        None \<Rightarrow> Done
      | Some f \<Rightarrow>
          Upd (\<lambda>s. s\<lparr>selectedFile := [], ticData := None, chromData := None,
                     spectrumData := None, scanList := [], scanListRef := Suc (scanListRef s),
                     currentScanIdx := - 1, loading := True, error := None\<rparr>)
            (AwaitUpload f (\<lambda>r.
               case r of
                 Rejected msg \<Rightarrow>
                   Upd (\<lambda>s. s\<lparr>error := Some (''Upload Error: '' @ msg), loading := False\<rparr>) Done
               | NotOk (JsonError msg) \<Rightarrow>
                   Upd (\<lambda>s. s\<lparr>error := Some (''Upload Error: '' @ msg), loading := False\<rparr>) Done
               | NotOk (Json detail) \<Rightarrow>
                   Upd (\<lambda>s. s\<lparr>error := Some (''Upload Error: '' @ or_default detail ''Upload failed.''),
                              loading := False\<rparr>) Done
               | Ok (JsonError msg) \<Rightarrow>
                   Upd (\<lambda>s. s\<lparr>error := Some (''Upload Error: '' @ msg), loading := False\<rparr>) Done
               | Ok (Json filepath) \<Rightarrow>
                   Upd (\<lambda>s. s\<lparr>selectedFile := filepath\<rparr>)
                     (fetchTic filepath
                        (fetchScanList filepath
                           (Upd (\<lambda>s. s\<lparr>loading := False\<rparr>) Done))))))"

definition loadDemoData :: "AppState \<Rightarrow> proc" where
  "loadDemoData snap =
     Upd (\<lambda>s. s\<lparr>loading := True, error := None\<rparr>)
       (AwaitDemoPath (\<lambda>r.
          case r of
            Rejected msg \<Rightarrow> Upd (\<lambda>s. s\<lparr>error := Some msg, loading := False\<rparr>) Done
          | NotOk b \<Rightarrow>
              Upd (\<lambda>s. s\<lparr>error := Some ''Demo file not available.'', loading := False\<rparr>) Done
          | Ok (JsonError msg) \<Rightarrow> Upd (\<lambda>s. s\<lparr>error := Some msg, loading := False\<rparr>) Done
          | Ok (Json path) \<Rightarrow>
              Upd (\<lambda>s. s\<lparr>selectedFile := path, ticData := None, chromData := None,
                         spectrumData := None, scanList := [],
                         scanListRef := Suc (scanListRef s), currentScanIdx := - 1\<rparr>)
                (Fork (fetchTic path Done)
                   (Fork (fetchScanList path Done)
                      (Upd (\<lambda>s. s\<lparr>loading := False\<rparr>) Done)))))"

definition handleManualPathSubmit :: "AppState \<Rightarrow> proc" where
  "handleManualPathSubmit snap =
     (if manualPath snap \<noteq> [] then
        Upd (\<lambda>s. s\<lparr>selectedFile := manualPath snap\<rparr>)
          (Fork (fetchTic (manualPath snap) Done)
             (Fork (fetchScanList (manualPath snap) Done) Done))
      else Done)"

text \<open>The file browser of the second revision, with that revision's two fetches.\<close>

definition fetchScanList_rev2 :: "string \<Rightarrow> proc \<Rightarrow> proc" where
  "fetchScanList_rev2 filepath k =
     AwaitScanList filepath (\<lambda>r.
       case r of
         Rejected msg \<Rightarrow> Upd (\<lambda>s. s\<lparr>console := console s @ [msg]\<rparr>) k
       | NotOk b \<Rightarrow> Upd (\<lambda>s. s\<lparr>console := console s @ [''Failed to get scan list'']\<rparr>) k
       | Ok (JsonError msg) \<Rightarrow> Upd (\<lambda>s. s\<lparr>console := console s @ [msg]\<rparr>) k
       | Ok (Json data) \<Rightarrow>
           Upd (\<lambda>s. s\<lparr>scanList := data, scanListRef := Suc (scanListRef s)\<rparr>) k)"

definition fetchTic_rev2 :: "string \<Rightarrow> proc \<Rightarrow> proc" where
  "fetchTic_rev2 filepath k =
     Upd (\<lambda>s. s\<lparr>loading := True, chromXRange := None\<rparr>)
       (AwaitTic filepath (\<lambda>r.
          case r of
            Rejected msg \<Rightarrow> Upd (\<lambda>s. s\<lparr>error := Some msg, loading := False\<rparr>) k
          | NotOk b \<Rightarrow> Upd (\<lambda>s. s\<lparr>error := Some ''Failed to get TIC'', loading := False\<rparr>) k
          | Ok (JsonError msg) \<Rightarrow> Upd (\<lambda>s. s\<lparr>error := Some msg, loading := False\<rparr>) k
          | Ok (Json data) \<Rightarrow>
              Upd (\<lambda>s. s\<lparr>ticData := Some \<lparr>chrom_x = resp_rts data, chrom_y = resp_ints data\<rparr>,
                         plotRevision := plotRevision s + 1, loading := False\<rparr>) k))"

definition handleFileSelect :: "string \<Rightarrow> AppState \<Rightarrow> proc" where
  "handleFileSelect fileName snap =
     (let fullPath = (if currentPath snap = ''/'' then ''/'' @ fileName
                      else currentPath snap @ ''/'' @ fileName)
      in Upd (\<lambda>s. s\<lparr>selectedFile := fullPath, chromData := None, spectrumData := None,
                    scanList := [], scanListRef := Suc (scanListRef s),
                    currentScanIdx := - 1\<rparr>)
           (Fork (fetchTic_rev2 fullPath Done)
              (Fork (fetchScanList_rev2 fullPath Done) Done)))"

subsection \<open>Spectrum selection\<close>

text \<open>
  \<open>spectrumReply snap\<close> is the part of \<^verbatim>\<open>fetchSpectrum\<close> after its \<^verbatim>\<open>await\<close>: it
  runs when the reply arrives, whatever has happened since the request, and its
  \<^verbatim>\<open>scanList\<close> is still the one of the render \<open>snap\<close> that issued the request.
\<close>

definition spectrumReply :: "AppState \<Rightarrow> SpectrumResponse reply \<Rightarrow> proc" where
  "spectrumReply snap r =
     (case r of
        Rejected msg \<Rightarrow> Upd (\<lambda>s. s\<lparr>error := Some msg, loading := False\<rparr>) Done
      | NotOk b \<Rightarrow>
          Upd (\<lambda>s. s\<lparr>error := Some ''Failed to fetch spectrum'', loading := False\<rparr>) Done
      | Ok (JsonError msg) \<Rightarrow> Upd (\<lambda>s. s\<lparr>error := Some msg, loading := False\<rparr>) Done
      | Ok (Json data) \<Rightarrow>
          Upd (\<lambda>s. s\<lparr>spectrumData := Some data, ms2Data := None, msXRange := None\<rparr>)
            (if length (scanList snap) > 0 then
               Upd (\<lambda>s. s\<lparr>currentScanIdx :=
                            int (closestIdx (scanList snap) (spec_rt data))\<rparr>)
                 (Upd (\<lambda>s. s\<lparr>loading := False\<rparr>) Done)
             else Upd (\<lambda>s. s\<lparr>loading := False\<rparr>) Done))"

definition fetchSpectrum :: "real \<Rightarrow> AppState \<Rightarrow> proc" where
  "fetchSpectrum rt_sec snap =
     (if selectedFile snap = [] then Done
      else
        Upd (\<lambda>s. s\<lparr>loading := True\<rparr>)
          (AwaitSpectrum (selectedFile snap) rt_sec (spectrumReply snap)))"

definition updateSpectrumByIndex :: "int \<Rightarrow> AppState \<Rightarrow> proc" where
  "updateSpectrumByIndex idx snap =
     (if idx < 0 \<or> idx \<ge> int (length (scanList snap)) then Done
      else
        Upd (\<lambda>s. s\<lparr>currentScanIdx := idx\<rparr>)
          (Fork (fetchSpectrum (scan_rt (scanList snap ! nat idx)) snap) Done))"

definition handleKeyDown :: "string \<Rightarrow> AppState \<Rightarrow> proc" where
  "handleKeyDown key snap =
     (let rest =
        (if length (scanList snap) = 0 then Done
         else if key = ''ArrowRight'' then
           (let nextIdx = min (int (length (scanList snap)) - 1) (currentScanIdx snap + 1)
            in if nextIdx \<noteq> currentScanIdx snap then updateSpectrumByIndex nextIdx snap
               else Done)
         else if key = ''ArrowLeft'' then
           (let prevIdx = max 0 (currentScanIdx snap - 1)
            in if prevIdx \<noteq> currentScanIdx snap then updateSpectrumByIndex prevIdx snap
               else Done)
         else Done)
      in if key = ''Control'' \<or> key = ''Meta''
         then Upd (\<lambda>s. s\<lparr>ctrlPressed := True\<rparr>) rest
         else rest)"

text \<open>
  The click on the chromatogram (first revision): \<open>click_points\<close> holds, for every
  point of the event, its x when it has one; \<open>click_fallback\<close> is the x that the
  inverse pixel transform gives when the event's target lies in a plot.
\<close>

record ClickEvent =
  click_points :: "real option list option"
  click_fallback :: "real option"

definition handlePlotClick :: "ClickEvent \<Rightarrow> AppState \<Rightarrow> proc" where
  "handlePlotClick event snap =
     (if selectedFile snap = [] then Done
      else
        (let hit = (case click_points event of
                      None \<Rightarrow> None
                    | Some ps \<Rightarrow> (case List.find (\<lambda>p. p \<noteq> None) ps of
                                   Some (Some v) \<Rightarrow> Some v
                                 | _ \<Rightarrow> None));
             rt_min = (case hit of Some v \<Rightarrow> Some v | None \<Rightarrow> click_fallback event)
         in case rt_min of
              None \<Rightarrow> Done
            | Some v \<Rightarrow>
                if v < 0 then Done
                else Fork (fetchSpectrum (v * 60) snap) Done))"

definition fetchMs2Spectrum :: "real \<Rightarrow> real \<Rightarrow> AppState \<Rightarrow> proc" where
  "fetchMs2Spectrum precursor rt_sec snap =
     (if selectedFile snap = [] then Done
      else
        Upd (\<lambda>s. s\<lparr>ms2Loading := True\<rparr>)
          (AwaitMs2 (selectedFile snap) precursor rt_sec (\<lambda>r.
             case r of
               Rejected msg \<Rightarrow>
                 Upd (\<lambda>s. s\<lparr>console := console s @ [msg]\<rparr>)
                   (Upd (\<lambda>s. s\<lparr>ms2Loading := False\<rparr>) Done)
             | NotOk b \<Rightarrow> Upd (\<lambda>s. s\<lparr>ms2Loading := False\<rparr>) Done
             | Ok (JsonError msg) \<Rightarrow>
                 Upd (\<lambda>s. s\<lparr>console := console s @ [msg]\<rparr>)
                   (Upd (\<lambda>s. s\<lparr>ms2Loading := False\<rparr>) Done)
             | Ok (Json data) \<Rightarrow>
                 Upd (\<lambda>s. s\<lparr>ms2Data := Some data, ms2XRange := None\<rparr>)
                   (Upd (\<lambda>s. s\<lparr>ms2Loading := False\<rparr>) Done))))"

section \<open>The event loop\<close>

text \<open>
  A configuration holds the live state, the requests in flight with the process that
  waits for each, the history of requests issued (with the state at that moment) and
  completed, and the render whose closure the key listener of the window holds.
  \<open>dispatch\<close> runs a handler that the latest render attached (a button, a table row,
  the plot): its closure is the live state. \<open>deliver\<close> completes the \<open>i\<close>-th request
  in flight with a reply and runs its continuation. Each runs to the next
  \<^verbatim>\<open>await\<close> without interruption, as the single-threaded event loop does.
\<close>

datatype request =
    ReqUpload string
  | ReqDemoPath
  | ReqTic string
  | ReqScanList string
  | ReqSpectrum string real
  | ReqMs2 string real real

datatype delivery =
    RUpload "string reply"
  | RDemoPath "string reply"
  | RTic "ChromatogramResponse reply"
  | RScanList "Scan list reply"
  | RSpectrum "SpectrumResponse reply"
  | RMs2 "MS2Response reply"

datatype event = Issued request AppState | Completed request

record config =
  store :: AppState
  pending :: "(request \<times> proc) list"
  trace :: "event list"
  listener :: AppState

text \<open>
  The key listener is registered by an effect with the dependencies
  \<^verbatim>\<open>[scanList, currentScanIdx]\<close>: after a render in which neither has changed the
  window keeps the listener of an earlier render, with that render's
  \<^verbatim>\<open>selectedFile\<close>. \<open>listens l s\<close> says that the render \<open>l\<close> and the state \<open>s\<close>
  agree on the dependencies (the same array is the same list).
\<close>

definition listens :: "AppState \<Rightarrow> AppState \<Rightarrow> bool" where
  "listens l s \<longleftrightarrow>
     scanListRef l = scanListRef s \<and> scanList l = scanList s \<and>
     currentScanIdx l = currentScanIdx s"

definition start :: "AppState \<Rightarrow> AppState \<Rightarrow> config" where
  \<comment> \<open>The state \<open>s\<close>, rendered, with nothing in flight and the key listener of the render \<open>l\<close>.\<close>
  "start l s = \<lparr>store = s, pending = [], trace = [], listener = l\<rparr>"

definition init :: "AppState \<Rightarrow> config" where
  "init s = start s s"

text \<open>
  The render after a turn of the loop, and the effect that follows it: when the scan
  list or the index is no longer the one of the listener's render, the listener is
  replaced by one with the closure of this render; otherwise the old listener stays.
\<close>

definition rerender :: "config \<Rightarrow> config" where
  "rerender c =
     c\<lparr>listener := (if listens (listener c) (store c) then listener c else store c)\<rparr>"

definition suspend :: "request \<Rightarrow> proc \<Rightarrow> config \<Rightarrow> config" where
  "suspend q p c =
     c\<lparr>pending := pending c @ [(q, p)], trace := trace c @ [Issued q (store c)]\<rparr>"

primrec run :: "proc \<Rightarrow> config \<Rightarrow> config" where
  "run Done c = c"
| "run (Upd f p) c = run p (c\<lparr>store := f (store c)\<rparr>)"
| "run (Fork p k) c = run k (run p c)"
| "run (AwaitUpload f k) c = suspend (ReqUpload f) (AwaitUpload f k) c"
| "run (AwaitDemoPath k) c = suspend ReqDemoPath (AwaitDemoPath k) c"
| "run (AwaitTic f k) c = suspend (ReqTic f) (AwaitTic f k) c"
| "run (AwaitScanList f k) c = suspend (ReqScanList f) (AwaitScanList f k) c"
| "run (AwaitSpectrum f t k) c = suspend (ReqSpectrum f t) (AwaitSpectrum f t k) c"
| "run (AwaitMs2 f m t k) c = suspend (ReqMs2 f m t) (AwaitMs2 f m t k) c"

fun resume :: "proc \<Rightarrow> delivery \<Rightarrow> proc option" where
  "resume (AwaitUpload f k) (RUpload r) = Some (k r)"
| "resume (AwaitDemoPath k) (RDemoPath r) = Some (k r)"
| "resume (AwaitTic f k) (RTic r) = Some (k r)"
| "resume (AwaitScanList f k) (RScanList r) = Some (k r)"
| "resume (AwaitSpectrum f t k) (RSpectrum r) = Some (k r)"
| "resume (AwaitMs2 f m t k) (RMs2 r) = Some (k r)"
| "resume p d = None"

definition dispatch :: "(AppState \<Rightarrow> proc) \<Rightarrow> config \<Rightarrow> config" where
  "dispatch handler c = run (handler (store c)) c"

definition deliver :: "nat \<Rightarrow> delivery \<Rightarrow> config \<Rightarrow> config option" where
  "deliver i d c =
     (if i < length (pending c) then
        (case resume (snd (pending c ! i)) d of
           None \<Rightarrow> None
         | Some p \<Rightarrow>
             Some (run p (c\<lparr>pending := take i (pending c) @ drop (Suc i) (pending c),
                             trace := trace c @ [Completed (fst (pending c ! i))]\<rparr>)))
      else None)"

definition in_flight :: "config \<Rightarrow> request list" where
  "in_flight c = map fst (pending c)"

fun issued :: "event list \<Rightarrow> (request \<times> AppState) list" where
  "issued [] = []"
| "issued (Issued q s # es) = (q, s) # issued es"
| "issued (Completed q # es) = issued es"

text \<open>
  A scenario: handlers of the latest render invoked, keys pressed and replies of the
  backend, in the order they happen. A key press runs \<^verbatim>\<open>handleKeyDown\<close> with the
  closure of the listener; the component renders after every turn.
\<close>

datatype step = Invoke "AppState \<Rightarrow> proc" | Key string | Reply nat delivery

fun act :: "step \<Rightarrow> config \<Rightarrow> config option" where
  "act (Invoke handler) c = Some (dispatch handler c)"
| "act (Key key) c = Some (run (handleKeyDown key (listener c)) c)"
| "act (Reply i d) c = deliver i d c"

fun steps :: "step list \<Rightarrow> config \<Rightarrow> config option" where
  "steps [] c = Some c"
| "steps (g # rest) c =
     (case act g c of None \<Rightarrow> None | Some c' \<Rightarrow> steps rest (rerender c'))"

section \<open>Observations of a scenario\<close>

definition after :: "step list \<Rightarrow> AppState \<Rightarrow> AppState option" where
  \<comment> \<open>The state after a scenario that starts from \<open>s\<close> with no request in flight.\<close>
  "after sc s = map_option store (steps sc (init s))"

definition requests_in_flight :: "step list \<Rightarrow> AppState \<Rightarrow> request list option" where
  "requests_in_flight sc s = map_option in_flight (steps sc (init s))"

text \<open>The same for a scenario that starts with the key listener of the render \<open>l\<close>.\<close>

definition after_from :: "AppState \<Rightarrow> step list \<Rightarrow> AppState \<Rightarrow> AppState option" where
  "after_from l sc s = map_option store (steps sc (start l s))"

definition requests_from :: "AppState \<Rightarrow> step list \<Rightarrow> AppState \<Rightarrow> request list option" where
  "requests_from l sc s = map_option in_flight (steps sc (start l s))"

fun is_file_fetch :: "request \<Rightarrow> bool" where
  "is_file_fetch (ReqTic f) = True"
| "is_file_fetch (ReqScanList f) = True"
| "is_file_fetch q = False"

definition file_fetches :: "step list \<Rightarrow> AppState \<Rightarrow> (request \<times> AppState) list" where
  \<comment> \<open>The chromatogram and scan-list requests of a scenario, each with the state at its issue.\<close>
  "file_fetches sc s =
     (case steps sc (init s) of
        None \<Rightarrow> []
      | Some c \<Rightarrow> filter (\<lambda>(q, snap). is_file_fetch q) (issued (trace c)))"

text \<open>
  What a new-file selection has reset in \<open>snap\<close>, and what it has kept of the state
  \<open>s\<close> it started from.
\<close>

definition selection_reset :: "AppState \<Rightarrow> AppState \<Rightarrow> bool" where
  "selection_reset s snap \<longleftrightarrow>
     chromData snap = None \<and> spectrumData snap = None \<and> scanList snap = [] \<and>
     currentScanIdx snap = - 1 \<and> chromXRange snap = None \<and>
     ms2Data snap = ms2Data s \<and> msXRange snap = msXRange s \<and> ms2XRange snap = ms2XRange s"




section \<open>Sample data\<close>

definition sample_scan :: "int \<Rightarrow> real \<Rightarrow> Scan" where
  "sample_scan i t = \<lparr>scan_id = i, scan_rt = t, tic = 0, base_peak_mz = 0, base_peak_int = 0\<rparr>"

definition ramp :: Chromatogram where
  \<comment> \<open>The samples \<open>(0 s, 0)\<close>, \<open>(60 s, 10)\<close>, \<open>(120 s, 0)\<close>.\<close>
  "ramp = \<lparr>chrom_x = [0, 60, 120], chrom_y = [0, 10, 0]\<rparr>"

definition box :: "real \<Rightarrow> real \<Rightarrow> SelectEvent" where
  \<comment> \<open>A box selection over the minutes \<open>lo\<close> to \<open>hi\<close>.\<close>
  "box lo hi = \<lparr>sel_points = None, sel_range = Some (Some (lo, hi))\<rparr>"

definition three_scans :: "Scan list" where
  "three_scans = [sample_scan 0 0, sample_scan 1 10, sample_scan 2 20]"

definition sample_spectrum :: "real \<Rightarrow> SpectrumResponse" where
  "sample_spectrum t = \<lparr>spec_mzs = [100, 200], spec_ints = [5, 8], spec_rt = t, has_ms2 = Some [200]\<rparr>"

definition sample_ms2 :: MS2Response where
  "sample_ms2 = \<lparr>ms2_mzs = [50, 75], ms2_ints = [3, 4], ms2_rt = 0, precursor_mz = 200\<rparr>"

definition ms2_view :: AppState where
  \<comment> \<open>A file is open; an MS1 and an MS2 spectrum are shown, the MS2 pane zoomed.\<close>
  "ms2_view = initialState\<lparr>selectedFile := ''a.mzML'', spectrumData := Some (sample_spectrum 0),
     ms2Data := Some sample_ms2, ms2XRange := Some (40, 80)\<rparr>"

definition browsing :: AppState where
  \<comment> \<open>A file with three scans is open; the spectrum of the first scan is shown.\<close>
  "browsing = initialState\<lparr>selectedFile := ''a.mzML'', scanList := three_scans,
     spectrumData := Some (sample_spectrum 0), currentScanIdx := 0\<rparr>"

definition fragment_view :: AppState where
  "fragment_view = browsing\<lparr>ms2Data := Some sample_ms2, msXRange := Some (90, 210),
     ms2XRange := Some (40, 80)\<rparr>"

text \<open>
  A file is opened by its path and its chromatogram arrives; a click on the
  chromatogram asks for a spectrum while the scan list is still in flight; the scan
  list arrives, then the spectrum.
\<close>

definition late_scan_list :: "step list" where
  "late_scan_list =
     [Invoke handleManualPathSubmit,
      Reply 0 (RTic (Ok (Json \<lparr>resp_rts = [0, 60, 120], resp_ints = [0, 10, 0]\<rparr>))),
      Invoke (handlePlotClick \<lparr>click_points = Some [Some 1], click_fallback = None\<rparr>),
      Reply 0 (RScanList (Ok (Json three_scans))),
      Reply 0 (RSpectrum (Ok (Json (sample_spectrum 12))))]"

text \<open>
  The demo is loaded and, while its scan list is still in flight, a local file is
  picked; the scan list of the demo arrives, then the upload fails.
\<close>

definition stale_scans :: "step list" where
  "stale_scans =
     [Invoke loadDemoData,
      Reply 0 (RDemoPath (Ok (Json ''demo.mzML''))),
      Reply 0 (RTic (Ok (Json \<lparr>resp_rts = [0, 60, 120], resp_ints = [0, 10, 0]\<rparr>))),
      Invoke (handleFileUpload (Some ''b.mzML'')),
      Reply 0 (RScanList (Ok (Json three_scans))),
      Reply 0 (RUpload (Rejected ''Failed to fetch''))]"


section \<open>The stick-spectrum builder\<close>

lemma peak_xs_simps [simp]:
  "peak_xs [] = []" "peak_xs ((mz, v) # ps) = [Num mz, Num mz, Null] @ peak_xs ps"
  by (simp_all add: peak_xs_def)

lemma peak_ys_simps [simp]:
  "peak_ys [] = []" "peak_ys ((mz, v) # ps) = [Num 0, Num v, Null] @ peak_ys ps"
  by (simp_all add: peak_ys_def)

lemma stick_loop_drop:
  assumes "length ints = length mzs"
  shows "stick_loop mzs ints hl i acc =
     \<lparr>stick_x = stick_x acc @ peak_xs (filter (\<lambda>(mz, v). \<not> isHighlighted hl mz) (drop i (zip mzs ints))),
      stick_y = stick_y acc @ peak_ys (filter (\<lambda>(mz, v). \<not> isHighlighted hl mz) (drop i (zip mzs ints))),
      stick_hx = stick_hx acc @ peak_xs (filter (\<lambda>(mz, v). isHighlighted hl mz) (drop i (zip mzs ints))),
      stick_hy = stick_hy acc @ peak_ys (filter (\<lambda>(mz, v). isHighlighted hl mz) (drop i (zip mzs ints)))\<rparr>"
  using assms
proof (induction mzs ints hl i acc rule: stick_loop.induct)
  case (1 mzs ints hl i acc)
  show ?case
  proof (cases "i < length mzs")
    case False
    then show ?thesis using "1.prems" by (simp add: stick_loop.simps [of mzs ints hl i acc])
  next
    case True
    then have d: "drop i (zip mzs ints) = (mzs ! i, ints ! i) # drop (Suc i) (zip mzs ints)"
      using "1.prems" by (simp add: Cons_nth_drop_Suc [symmetric])
    have n: "js_nth ints i = Num (ints ! i)"
      using True "1.prems" by (simp add: js_nth_def)
    show ?thesis
    proof (cases "isHighlighted hl (mzs ! i)")
      case h: True
      show ?thesis
        using "1.IH"(1) [OF True refl refl h "1.prems"] True h
        by (simp add: stick_loop.simps [of mzs ints hl i acc] d n Let_def)
    next
      case h: False
      show ?thesis
        using "1.IH"(2) [OF True refl refl h "1.prems"] True h
        by (simp add: stick_loop.simps [of mzs ints hl i acc] d n Let_def)
    qed
  qed
qed

text \<open>
  Claim C8. For index-aligned \<open>mzs\<close> and \<open>ints\<close> and any highlight values, the
  builder puts every peak in exactly one of the two channels, the highlighted one
  exactly when some highlight value is less than 0.1 away from the peak's m/z, and in
  its channel the peak is the three consecutive samples \<open>(mz, 0)\<close>,
  \<open>(mz, intensity)\<close> and a break, in input order. On \<open>mzs = [100, 200]\<close>,
  \<open>ints = [5, 8]\<close> and highlight \<open>200\<close> the normal channel is
  \<open>x = [100, 100, null]\<close>, \<open>y = [0, 5, null]\<close> and the highlighted one
  \<open>hx = [200, 200, null]\<close>, \<open>hy = [0, 8, null]\<close>.
\<close>

theorem getStickData_triplets:
  "length ints = length mzs \<Longrightarrow> getStickData mzs ints highlightMzs = stick_spec mzs ints highlightMzs"
  by (simp add: getStickData_def stick_spec_def stick_loop_drop Let_def)

theorem getStickData_triplets_witness:
  "length [5, 8 :: real] = length [100, 200 :: real] \<and>
   getStickData [100, 200] [5, 8] [200] =
     \<lparr>stick_x = [Num 100, Num 100, Null], stick_y = [Num 0, Num 5, Null],
      stick_hx = [Num 200, Num 200, Null], stick_hy = [Num 0, Num 8, Null]\<rparr>"
  using getStickData_triplets [of "[5, 8]" "[100, 200]" "[200]"]
  by (simp add: stick_spec_def isHighlighted_def)

section \<open>The closest scan\<close>

lemma closest_loop_inv:
  assumes "rest = drop idx sl" "prev < length sl"
    "\<forall>j<idx. \<bar>scan_rt (sl ! prev) - t\<bar> \<le> \<bar>scan_rt (sl ! j) - t\<bar>"
    "\<forall>j<prev. \<bar>scan_rt (sl ! prev) - t\<bar> < \<bar>scan_rt (sl ! j) - t\<bar>"
  shows "closest_loop sl t rest idx prev < length sl \<and>
     (\<forall>j<length sl. \<bar>scan_rt (sl ! closest_loop sl t rest idx prev) - t\<bar> \<le> \<bar>scan_rt (sl ! j) - t\<bar>) \<and>
     (\<forall>j<closest_loop sl t rest idx prev.
         \<bar>scan_rt (sl ! closest_loop sl t rest idx prev) - t\<bar> < \<bar>scan_rt (sl ! j) - t\<bar>)"
  using assms
proof (induction rest arbitrary: idx prev)
  case Nil
  then have "length sl \<le> idx" by simp
  with Nil show ?case by simp
next
  case (Cons cur rest)
  have lt: "idx < length sl"
    using Cons.prems(1) by (metis drop_all list.distinct(1) not_le)
  have cur: "cur = sl ! idx" and rest: "rest = drop (Suc idx) sl"
    using Cons.prems(1) lt by (simp_all add: Cons_nth_drop_Suc [symmetric])
  show ?case
  proof (cases "\<bar>scan_rt cur - t\<bar> < \<bar>scan_rt (sl ! prev) - t\<bar>")
    case True
    have a: "\<forall>j<Suc idx. \<bar>scan_rt (sl ! idx) - t\<bar> \<le> \<bar>scan_rt (sl ! j) - t\<bar>"
      using True Cons.prems(3) cur by (auto simp: less_Suc_eq)
    have b: "\<forall>j<idx. \<bar>scan_rt (sl ! idx) - t\<bar> < \<bar>scan_rt (sl ! j) - t\<bar>"
      using True Cons.prems(3) cur by fastforce
    show ?thesis
      using Cons.IH [OF rest lt a b] True by simp
  next
    case False
    have a: "\<forall>j<Suc idx. \<bar>scan_rt (sl ! prev) - t\<bar> \<le> \<bar>scan_rt (sl ! j) - t\<bar>"
      using False Cons.prems(3) cur by (auto simp: less_Suc_eq)
    show ?thesis
      using Cons.IH [OF rest Cons.prems(2) a Cons.prems(4)] False by simp
  qed
qed



text \<open>
  Claim C5. For a non-empty scan list and any target retention time, the resolution
  returns an index of the list at which the distance to the target is minimal, and
  every earlier index is strictly farther: of the indices at minimal distance the
  first is returned.
\<close>

theorem closestIdx_first_minimum:
  assumes "sl \<noteq> []"
  shows "closestIdx sl t < length sl \<and>
     (\<forall>j<length sl. \<bar>scan_rt (sl ! closestIdx sl t) - t\<bar> \<le> \<bar>scan_rt (sl ! j) - t\<bar>) \<and>
     (\<forall>j<closestIdx sl t. \<bar>scan_rt (sl ! closestIdx sl t) - t\<bar> < \<bar>scan_rt (sl ! j) - t\<bar>)"
  unfolding closestIdx_def
  using assms by (intro closest_loop_inv) simp_all

theorem closestIdx_first_minimum_witness:
  "[sample_scan 0 10, sample_scan 1 20, sample_scan 2 30] \<noteq> [] \<and>
   closestIdx [sample_scan 0 10, sample_scan 1 20, sample_scan 2 30] 15 = 0 \<and>
   closestIdx [sample_scan 0 10, sample_scan 1 20, sample_scan 2 30] 26 = 2 \<and>
   closestIdx [sample_scan 0 10, sample_scan 1 20, sample_scan 2 30] 15
     < length [sample_scan 0 10, sample_scan 1 20, sample_scan 2 30]"
  using closestIdx_first_minimum [of "[sample_scan 0 10, sample_scan 1 20, sample_scan 2 30]" 15]
  by (simp add: closestIdx_def sample_scan_def)

section \<open>Peak integration\<close>

lemma select_loop_fst:
  "fst (select_loop c minX maxX i (sx, sy)) =
     sx @ map (\<lambda>t. t / 60) (filter (\<lambda>t. minX \<le> t / 60 \<and> t / 60 \<le> maxX) (drop i (chrom_x c)))"
proof (induction c minX maxX i "(sx, sy)" arbitrary: sx sy rule: select_loop.induct)
  case (1 c minX maxX i sx sy)
  show ?case
  proof (cases "i < length (chrom_x c)")
    case False
    then show ?thesis by (simp add: select_loop.simps [of c minX maxX i])
  next
    case True
    then have d: "drop i (chrom_x c) = chrom_x c ! i # drop (Suc i) (chrom_x c)"
      by (simp add: Cons_nth_drop_Suc)
    show ?thesis
    proof (cases "minX \<le> chrom_x c ! i / 60 \<and> chrom_x c ! i / 60 \<le> maxX")
      case q: True
      show ?thesis
        using "1.hyps"(1) [OF True refl refl q] q True
        by (simp add: select_loop.simps [of c minX maxX i] d Let_def)
    next
      case q: False
      show ?thesis
        using "1.hyps"(2) [OF True refl refl q] q True
        by (auto simp add: select_loop.simps [of c minX maxX i] d Let_def)
    qed
  qed
qed

lemma select_loop_aligned:
  assumes "length (chrom_y c) = length (chrom_x c)"
  shows "select_loop c minX maxX i (sx, sy) =
     (sx @ map (\<lambda>(t, v). t / 60)
             (filter (\<lambda>(t, v). minX \<le> t / 60 \<and> t / 60 \<le> maxX) (drop i (zip (chrom_x c) (chrom_y c)))),
      sy @ map (\<lambda>(t, v). Num v)
             (filter (\<lambda>(t, v). minX \<le> t / 60 \<and> t / 60 \<le> maxX) (drop i (zip (chrom_x c) (chrom_y c)))))"
  using assms
proof (induction c minX maxX i "(sx, sy)" arbitrary: sx sy rule: select_loop.induct)
  case (1 c minX maxX i sx sy)
  show ?case
  proof (cases "i < length (chrom_x c)")
    case False
    then show ?thesis using "1.prems" by (simp add: select_loop.simps [of c minX maxX i])
  next
    case True
    then have d: "drop i (zip (chrom_x c) (chrom_y c)) =
        (chrom_x c ! i, chrom_y c ! i) # drop (Suc i) (zip (chrom_x c) (chrom_y c))"
      using "1.prems" by (simp add: Cons_nth_drop_Suc [symmetric])
    have n: "js_nth (chrom_y c) i = Num (chrom_y c ! i)"
      using True "1.prems" by (simp add: js_nth_def)
    show ?thesis
    proof (cases "minX \<le> chrom_x c ! i / 60 \<and> chrom_x c ! i / 60 \<le> maxX")
      case q: True
      show ?thesis
        using "1.hyps"(1) [OF True refl refl q "1.prems"] q True
        by (simp add: select_loop.simps [of c minX maxX i] d n Let_def)
    next
      case q: False
      show ?thesis
        using "1.hyps"(2) [OF True refl refl q "1.prems"] q True
        by (auto simp add: select_loop.simps [of c minX maxX i] d n Let_def)
    qed
  qed
qed

lemma area_loop_trapezoid:
  "area_loop (map (\<lambda>(t, v). t / 60) q) (map (\<lambda>(t, v). Num v) q) i (Num a) =
     Num (a + trapezoid_area (drop i q))"
proof (induction "map (\<lambda>(t, v). t / 60) q :: real list" "map (\<lambda>(t, v). Num v) q" i "Num a"
    arbitrary: a rule: area_loop.induct)
  case (1 i a)
  let ?sx = "map (\<lambda>(t, v). t / 60) q :: real list" and ?sy = "map (\<lambda>(t, v). Num v) q"
  show ?case
  proof (cases "Suc i < length q")
    case False
    then have "trapezoid_area (drop i q) = 0"
      by (cases "drop i q" rule: trapezoid_area.cases) (auto dest: arg_cong [where f = length])
    with False show ?thesis
      by (simp add: area_loop.simps [of ?sx ?sy i])
  next
    case True
    obtain x1 y1 where p1: "q ! i = (x1, y1)" by (cases "q ! i")
    obtain x2 y2 where p2: "q ! Suc i = (x2, y2)" by (cases "q ! Suc i")
    have d: "drop i q = (x1, y1) # (x2, y2) # drop (Suc (Suc i)) q"
      using True p1 p2 by (simp add: Cons_nth_drop_Suc [symmetric])
    have d': "drop (Suc i) q = (x2, y2) # drop (Suc (Suc i)) q"
      using True p2 by (simp add: Cons_nth_drop_Suc [symmetric])
    have c: "int i < int (length ?sx) - 1" using True by simp
    have step: "js_add (Num a) (js_mul (js_half (js_add (js_get ?sy i) (js_get ?sy (i + 1))))
                   (Num (?sx ! (i + 1) * 60 - ?sx ! i * 60))) =
          Num (a + (y1 + y2) / 2 * (x2 - x1))"
      using True p1 p2 by (simp add: js_get_def js_add_def js_mul_def js_half_def)
    have "area_loop ?sx ?sy i (Num a) =
        area_loop ?sx ?sy (Suc i)
          (js_add (Num a) (js_mul (js_half (js_add (js_get ?sy i) (js_get ?sy (i + 1))))
             (Num (?sx ! (i + 1) * 60 - ?sx ! i * 60))))"
      by (subst area_loop.simps) (simp only: c if_True Let_def)
    also have "\<dots> = area_loop ?sx ?sy (Suc i) (Num (a + (y1 + y2) / 2 * (x2 - x1)))"
      by (simp only: step)
    also have "\<dots> = Num (a + (y1 + y2) / 2 * (x2 - x1) + trapezoid_area (drop (Suc i) q))"
      by (rule "1.hyps" [OF c refl refl refl refl step])
    finally show ?thesis
      by (simp add: d d')
  qed
qed

lemma rangeX_of_guard:
  "rangeX_of e = Some r \<Longrightarrow> \<not> (sel_points e = None \<and> sel_range e = None)"
  by (auto simp: rangeX_of_def split: option.splits list.splits)

lemma selected_samples_aligned:
  assumes "rangeX_of e = Some (minX, maxX)" "activeChromData s = Some c"
    "length (chrom_y c) = length (chrom_x c)"
  shows "selected_samples e s =
     (map (\<lambda>(t, v). t / 60) (qualifying minX maxX c),
      map (\<lambda>(t, v). Num v) (qualifying minX maxX c))"
  using assms by (simp add: selected_samples_def select_loop_aligned qualifying_def)

lemma selected_samples_times:
  "fst (selected_samples e s) = map (\<lambda>t. t / 60) (qualifying_times (Some e) s)"
  by (simp add: selected_samples_def qualifying_times_def select_loop_fst
      split: option.splits prod.splits)

text \<open>
  Claim C6. When at least two samples of the active chromatogram have their time in
  minutes inside the selected range, the integration stores the composite trapezoidal
  sum over the consecutive qualifying samples, with x in seconds, and the qualifying
  samples in minutes; for the samples \<open>(0 s, 0)\<close>, \<open>(60 s, 10)\<close>, \<open>(120 s, 0)\<close>
  fully selected the stored area is 600.
\<close>

theorem calculateIntegration_trapezoid:
  assumes "rangeX_of e = Some (minX, maxX)"
    and "activeChromData s = Some c"
    and "length (chrom_y c) = length (chrom_x c)"
    and "2 \<le> length (qualifying minX maxX c)"
  shows "integratedArea (calculateIntegration (Some e) s) =
           Num (trapezoid_area (qualifying minX maxX c)) \<and>
         integratedPoints (calculateIntegration (Some e) s) =
           Some \<lparr>pts_x = map (\<lambda>(t, v). t / 60) (qualifying minX maxX c),
                 pts_y = map (\<lambda>(t, v). Num v) (qualifying minX maxX c)\<rparr>"
proof -
  have g: "\<not> (sel_points e = None \<and> sel_range e = None)"
    using assms(1) by (rule rangeX_of_guard)
  have a: "area_loop (map (\<lambda>(t, v). t / 60) (qualifying minX maxX c))
             (map (\<lambda>(t, v). Num v) (qualifying minX maxX c)) 0 (Num 0) =
           Num (trapezoid_area (qualifying minX maxX c))"
    by (simp add: area_loop_trapezoid)
  show ?thesis
    using g assms(4) a
    by (auto simp add: calculateIntegration_def selected_samples_aligned [OF assms(1-3)])
qed

theorem calculateIntegration_trapezoid_witness:
  "rangeX_of (box 0 2) = Some (0, 2) \<and>
   activeChromData (initialState\<lparr>ticData := Some ramp\<rparr>) = Some ramp \<and>
   length (chrom_y ramp) = length (chrom_x ramp) \<and>
   2 \<le> length (qualifying 0 2 ramp) \<and>
   integratedArea (calculateIntegration (Some (box 0 2)) (initialState\<lparr>ticData := Some ramp\<rparr>)) =
     Num 600"
proof -
  have r: "rangeX_of (box 0 2) = Some (0, 2)"
    by (simp add: rangeX_of_def box_def)
  have c: "activeChromData (initialState\<lparr>ticData := Some ramp\<rparr>) = Some ramp"
    by (simp add: activeChromData_def initialState_def)
  have l: "length (chrom_y ramp) = length (chrom_x ramp)"
    by (simp add: ramp_def)
  have q: "qualifying 0 2 ramp = [(0, 0), (60, 10), (120, 0)]"
    by (simp add: qualifying_def ramp_def)
  have n: "2 \<le> length (qualifying 0 2 ramp)"
    by (simp add: q)
  show ?thesis
    using calculateIntegration_trapezoid [OF r c l n] r c l n by (simp add: q)
qed

text \<open>
  Claim C7. When fewer than two samples qualify for the range derived from the event
  (also when the event is absent or carries neither points nor a range), the
  integration leaves the state, and so the stored area and points, unchanged.
\<close>

theorem calculateIntegration_noop:
  assumes "length (qualifying_times event s) < 2"
  shows "calculateIntegration event s = s"
proof (cases event)
  case None
  then show ?thesis by (simp add: calculateIntegration_def)
next
  case (Some e)
  have "length (fst (selected_samples e s)) < 2"
    using assms Some by (simp add: selected_samples_times)
  then show ?thesis
    using Some by (auto simp add: calculateIntegration_def split: prod.splits)
qed

theorem calculateIntegration_noop_witness:
  "length (qualifying_times (Some (box 0 (1 / 2)))
      (initialState\<lparr>ticData := Some ramp, integratedArea := Num 600\<rparr>)) < 2 \<and>
   calculateIntegration (Some (box 0 (1 / 2)))
      (initialState\<lparr>ticData := Some ramp, integratedArea := Num 600\<rparr>) =
     initialState\<lparr>ticData := Some ramp, integratedArea := Num 600\<rparr> \<and>
   calculateIntegration None (initialState\<lparr>integratedArea := Num 600\<rparr>) =
     initialState\<lparr>integratedArea := Num 600\<rparr>"
proof -
  have l: "length (qualifying_times (Some (box 0 (1 / 2)))
      (initialState\<lparr>ticData := Some ramp, integratedArea := Num 600\<rparr>)) < 2"
    by (simp add: qualifying_times_def rangeX_of_def box_def activeChromData_def
        initialState_def ramp_def)
  have e: "length (qualifying_times None (initialState\<lparr>integratedArea := Num 600\<rparr>)) < 2"
    by (simp add: qualifying_times_def)
  show ?thesis
    using calculateIntegration_noop [OF l] calculateIntegration_noop [OF e] l by simp
qed

section \<open>The event loop at work\<close>

lemmas loop_simps =
  dispatch_def deliver_def suspend_def init_def start_def rerender_def listens_def in_flight_def


lemma store_rerender [simp]: "store (rerender c) = store c"
  by (simp add: rerender_def)

lemma pending_rerender [simp]: "pending (rerender c) = pending c"
  by (simp add: rerender_def)







text \<open>A scenario that starts with the listener of the state itself.\<close>

lemma after_from_fresh: "after_from s sc s = after sc s"
  by (simp add: after_from_def after_def init_def)

subsection \<open>The fragment spectrum\<close>

text \<open>
  Claim C9, as amended. With a file selected, a fragment-spectrum fetch that succeeds
  replaces the MS2 spectrum and resets the MS2 zoom window to null. One that fails
  leaves the MS2 spectrum, the MS2 zoom window and the error banner as they were and
  only clears the MS2 loading flag; a rejected request or an unreadable body is
  written to the console, a response that is not 2xx is not logged at all.
\<close>

theorem fetchMs2Spectrum_outcomes:
  assumes "selectedFile s \<noteq> []"
  shows "after [Invoke (fetchMs2Spectrum m t), Reply 0 (RMs2 (Ok (Json data)))] s =
           Some (s\<lparr>ms2Data := Some data, ms2XRange := None, ms2Loading := False\<rparr>) \<and>
         after [Invoke (fetchMs2Spectrum m t), Reply 0 (RMs2 (NotOk b))] s =
           Some (s\<lparr>ms2Loading := False\<rparr>) \<and>
         after [Invoke (fetchMs2Spectrum m t), Reply 0 (RMs2 (Rejected msg))] s =
           Some (s\<lparr>ms2Loading := False, console := console s @ [msg]\<rparr>) \<and>
         after [Invoke (fetchMs2Spectrum m t), Reply 0 (RMs2 (Ok (JsonError msg)))] s =
           Some (s\<lparr>ms2Loading := False, console := console s @ [msg]\<rparr>)"
  using assms by (simp add: after_def fetchMs2Spectrum_def loop_simps)

theorem fetchMs2Spectrum_outcomes_witness:
  "selectedFile ms2_view \<noteq> [] \<and>
   after [Invoke (fetchMs2Spectrum 200 0), Reply 0 (RMs2 (Rejected ''Failed to fetch''))] ms2_view =
     Some (ms2_view\<lparr>console := [''Failed to fetch'']\<rparr>) \<and>
   after [Invoke (fetchMs2Spectrum 200 0), Reply 0 (RMs2 (NotOk (Json None)))] ms2_view =
     Some ms2_view"
proof -
  have f: "selectedFile ms2_view \<noteq> []"
    by (simp add: ms2_view_def initialState_def)
  show ?thesis
    using fetchMs2Spectrum_outcomes [OF f, of 200 0 _ "Json None" "''Failed to fetch''"] f
    by (simp add: ms2_view_def initialState_def)
qed

text \<open>
  The claim as stated has every failure logged; the response that is not 2xx leaves
  the console empty.
\<close>

theorem fetchMs2Spectrum_bad_status_not_logged:
  "map_option console
     (after [Invoke (fetchMs2Spectrum 200 0), Reply 0 (RMs2 (NotOk (Json None)))] ms2_view) =
   Some []"
  by (simp add: after_def fetchMs2Spectrum_def loop_simps ms2_view_def initialState_def)

subsection \<open>The spectrum\<close>



lemma spectrum_reply_store:
  assumes "i < length (pending c)"
    and "snd (pending c ! i) = AwaitSpectrum f t (spectrumReply snap)"
  shows "map_option store (deliver i (RSpectrum r) c) =
     Some (case r of
             Rejected msg \<Rightarrow> (store c)\<lparr>error := Some msg, loading := False\<rparr>
           | NotOk b \<Rightarrow> (store c)\<lparr>error := Some ''Failed to fetch spectrum'', loading := False\<rparr>
           | Ok (JsonError msg) \<Rightarrow> (store c)\<lparr>error := Some msg, loading := False\<rparr>
           | Ok (Json data) \<Rightarrow>
               (store c)\<lparr>spectrumData := Some data, ms2Data := None, msXRange := None,
                  currentScanIdx := (if scanList snap = [] then currentScanIdx (store c)
                                     else int (closestIdx (scanList snap) (spec_rt data))),
                  loading := False\<rparr>)"
  using assms by (simp add: deliver_def spectrumReply_def split: reply.splits json.splits)

text \<open>
  Claim C2, as amended. Take any spectrum request in flight, issued by
  \<^verbatim>\<open>fetchSpectrum\<close> in a render \<open>snap\<close> (lemma \<open>fetchSpectrum_suspends\<close>: these are
  the requests it leaves in flight), and any state of the loop in which its
  successful reply arrives. The reply stores the spectrum, clears the MS2 spectrum,
  resets the zoom window of the MS1 pane to null and leaves the zoom window of the MS2
  pane as it is; when the scan list of the render that issued the request is not
  empty, the current scan index becomes the closest scan of that list to the fetched
  spectrum's retention time, otherwise the index stays.
\<close>

theorem fetchSpectrum_success:
  assumes "i < length (pending c)"
    and "snd (pending c ! i) = AwaitSpectrum f t (spectrumReply snap)"
  shows "map_option store (deliver i (RSpectrum (Ok (Json data))) c) =
           Some ((store c)\<lparr>spectrumData := Some data, ms2Data := None, msXRange := None,
                   currentScanIdx := (if scanList snap = [] then currentScanIdx (store c)
                                      else int (closestIdx (scanList snap) (spec_rt data))),
                   loading := False\<rparr>) \<and>
         map_option (ms2XRange \<circ> store) (deliver i (RSpectrum (Ok (Json data))) c) =
           Some (ms2XRange (store c))"
proof -
  have "map_option store (deliver i (RSpectrum (Ok (Json data))) c) =
           Some ((store c)\<lparr>spectrumData := Some data, ms2Data := None, msXRange := None,
                   currentScanIdx := (if scanList snap = [] then currentScanIdx (store c)
                                      else int (closestIdx (scanList snap) (spec_rt data))),
                   loading := False\<rparr>)"
    using spectrum_reply_store [OF assms, of "Ok (Json data)"] by simp
  then show ?thesis
    by (auto simp add: option.map_comp [symmetric])
qed

theorem fetchSpectrum_success_witness:
  "0 < length (pending (dispatch (fetchSpectrum 12) (init (ms2_view\<lparr>scanList := three_scans\<rparr>)))) \<and>
   snd (pending (dispatch (fetchSpectrum 12) (init (ms2_view\<lparr>scanList := three_scans\<rparr>))) ! 0) =
     AwaitSpectrum ''a.mzML'' 12 (spectrumReply (ms2_view\<lparr>scanList := three_scans\<rparr>)) \<and>
   map_option store (deliver 0 (RSpectrum (Ok (Json (sample_spectrum 12))))
       (dispatch (fetchSpectrum 12) (init (ms2_view\<lparr>scanList := three_scans\<rparr>)))) =
     Some (ms2_view\<lparr>scanList := three_scans, spectrumData := Some (sample_spectrum 12),
             ms2Data := None, currentScanIdx := 1\<rparr>)"
proof -
  let ?c = "dispatch (fetchSpectrum 12) (init (ms2_view\<lparr>scanList := three_scans\<rparr>))"
  have l: "0 < length (pending ?c)"
    by (simp add: fetchSpectrum_def loop_simps ms2_view_def initialState_def)
  have p: "snd (pending ?c ! 0) =
      AwaitSpectrum ''a.mzML'' 12 (spectrumReply (ms2_view\<lparr>scanList := three_scans\<rparr>))"
    by (simp add: fetchSpectrum_def loop_simps ms2_view_def initialState_def)
  have s: "store ?c = ms2_view\<lparr>scanList := three_scans, loading := True\<rparr>"
    by (simp add: fetchSpectrum_def loop_simps ms2_view_def initialState_def)
  have c: "closestIdx three_scans 12 = 1"
    by (simp add: closestIdx_def three_scans_def sample_scan_def)
  have t: "map_option store (deliver 0 (RSpectrum (Ok (Json (sample_spectrum 12)))) ?c) =
      Some ((store ?c)\<lparr>spectrumData := Some (sample_spectrum 12), ms2Data := None,
              msXRange := None,
              currentScanIdx :=
                (if scanList (ms2_view\<lparr>scanList := three_scans\<rparr>) = []
                 then currentScanIdx (store ?c)
                 else int (closestIdx (scanList (ms2_view\<lparr>scanList := three_scans\<rparr>))
                        (spec_rt (sample_spectrum 12)))),
              loading := False\<rparr>)"
    by (rule fetchSpectrum_success [OF l p, THEN conjunct1])
  show ?thesis
    unfolding t s using l p c
    by (simp add: ms2_view_def initialState_def sample_spectrum_def three_scans_def)
qed

text \<open>
  The claim as stated has the MS2 zoom window reset; it survives the fetch.
\<close>

theorem fetchSpectrum_keeps_ms2_zoom:
  "map_option ms2XRange
     (after [Invoke (fetchSpectrum 12), Reply 0 (RSpectrum (Ok (Json (sample_spectrum 12))))]
        ms2_view) =
   Some (Some (40, 80))"
  by (simp add: after_def fetchSpectrum_def spectrumReply_def loop_simps ms2_view_def
      initialState_def)

text \<open>
  The scan list that counts is the one of the issuing render: a scan list that
  arrives while the spectrum request is in flight is not consulted, and the index
  stays \<open>-1\<close> beside three scans.
\<close>

lemma spectrum_reply_ignores_late_scan_list:
  "map_option scanList (after late_scan_list (initialState\<lparr>manualPath := ''a.mzML''\<rparr>)) =
     Some three_scans \<and>
   map_option spectrumData (after late_scan_list (initialState\<lparr>manualPath := ''a.mzML''\<rparr>)) =
     Some (Some (sample_spectrum 12)) \<and>
   map_option currentScanIdx (after late_scan_list (initialState\<lparr>manualPath := ''a.mzML''\<rparr>)) =
     Some (- 1)"
  by (simp add: after_def late_scan_list_def handleManualPathSubmit_def handlePlotClick_def
      fetchTic_def fetchScanList_def fetchSpectrum_def spectrumReply_def loop_simps
      initialState_def Let_def)

subsection \<open>The current scan index\<close>















subsection \<open>Selecting a file\<close>

lemma upload_fetches:
  "map fst (file_fetches [Invoke (handleFileUpload (Some f)), Reply 0 (RUpload (Ok (Json path))),
      Reply 0 (RTic r)] s) = [ReqTic path, ReqScanList path] \<and>
   list_all (selection_reset s) (map snd (file_fetches [Invoke (handleFileUpload (Some f)),
      Reply 0 (RUpload (Ok (Json path))), Reply 0 (RTic r)] s))"
  by (simp add: file_fetches_def handleFileUpload_def fetchTic_def fetchScanList_def loop_simps
      selection_reset_def split: reply.splits json.splits)

lemma upload_failed_fetches:
  "(\<forall>path. r1 \<noteq> Ok (Json path)) \<Longrightarrow>
   file_fetches [Invoke (handleFileUpload (Some f)), Reply 0 (RUpload r1), Reply 0 (RTic r)] s = []"
  by (simp add: file_fetches_def handleFileUpload_def loop_simps split: reply.splits json.splits)

lemma demo_fetches:
  "map fst (file_fetches [Invoke loadDemoData, Reply 0 (RDemoPath (Ok (Json path)))] s) =
     [ReqTic path, ReqScanList path] \<and>
   list_all (selection_reset s) (map snd (file_fetches [Invoke loadDemoData,
      Reply 0 (RDemoPath (Ok (Json path)))] s))"
  by (simp add: file_fetches_def loadDemoData_def fetchTic_def fetchScanList_def loop_simps
      selection_reset_def)

lemma demo_failed_fetches:
  "(\<forall>path. r1 \<noteq> Ok (Json path)) \<Longrightarrow>
   file_fetches [Invoke loadDemoData, Reply 0 (RDemoPath r1)] s = []"
  by (simp add: file_fetches_def loadDemoData_def loop_simps split: reply.splits json.splits)

text \<open>
  Claim C1, as amended. For a local upload and for a demo load, run with nothing else
  in between, at the moment the chromatogram request and the scan-list request of the
  new file are issued the extracted chromatogram, the spectrum and the scan list are
  cleared, the current scan index is \<open>-1\<close> and the zoom window of the chromatogram
  is null; the MS2 spectrum and the zoom windows of the MS1 and MS2 panes are as they
  were before the selection. Both requests are issued once the backend has
  returned the file identifier.
\<close>

theorem file_selection_resets:
  assumes "sc = [Invoke (handleFileUpload (Some f)), Reply 0 (RUpload r1), Reply 0 (RTic r2)] \<or>
           sc = [Invoke loadDemoData, Reply 0 (RDemoPath r1)]"
  shows "(\<forall>(q, snap) \<in> set (file_fetches sc s). selection_reset s snap) \<and>
         (\<forall>path. r1 = Ok (Json path) \<longrightarrow>
            map fst (file_fetches sc s) = [ReqTic path, ReqScanList path])"
proof (cases "\<exists>path. r1 = Ok (Json path)")
  case True
  then obtain path where r1: "r1 = Ok (Json path)" by blast
  have "list_all (selection_reset s) (map snd (file_fetches sc s))"
    and m: "map fst (file_fetches sc s) = [ReqTic path, ReqScanList path]"
    using assms upload_fetches [of f path r2 s] demo_fetches [of path s] unfolding r1 by auto
  then have "\<forall>(q, snap) \<in> set (file_fetches sc s). selection_reset s snap"
    by (auto simp: list_all_iff)
  with m r1 show ?thesis by simp
next
  case False
  then have "file_fetches sc s = []"
    using assms upload_failed_fetches [of r1 f r2 s] demo_failed_fetches [of r1 s] by auto
  with False show ?thesis by simp
qed

theorem file_selection_resets_witness:
  "map fst (file_fetches [Invoke loadDemoData, Reply 0 (RDemoPath (Ok (Json ''demo.mzML'')))]
      fragment_view) = [ReqTic ''demo.mzML'', ReqScanList ''demo.mzML''] \<and>
   list_all (selection_reset fragment_view)
     (map snd (file_fetches [Invoke loadDemoData, Reply 0 (RDemoPath (Ok (Json ''demo.mzML'')))]
        fragment_view))"
  using file_selection_resets [of "[Invoke loadDemoData, Reply 0 (RDemoPath (Ok (Json ''demo.mzML'')))]"
      _ "Ok (Json ''demo.mzML'')" _ fragment_view]
  by (auto simp: list_all_iff)

text \<open>
  The claim as stated has the MS2 spectrum cleared and the MS1 and MS2 zoom windows
  null before the fetches of the new file; all three survive an upload.
\<close>

theorem file_selection_keeps_fragment_view:
  "map (ms2Data \<circ> snd)
     (file_fetches [Invoke (handleFileUpload (Some ''b.mzML'')),
        Reply 0 (RUpload (Ok (Json ''/data/b.mzML''))), Reply 0 (RTic (Rejected ''Failed to fetch''))]
        fragment_view) = [Some sample_ms2, Some sample_ms2] \<and>
   map (msXRange \<circ> snd)
     (file_fetches [Invoke (handleFileUpload (Some ''b.mzML'')),
        Reply 0 (RUpload (Ok (Json ''/data/b.mzML''))), Reply 0 (RTic (Rejected ''Failed to fetch''))]
        fragment_view) = [Some (90, 210), Some (90, 210)] \<and>
   map (ms2XRange \<circ> snd)
     (file_fetches [Invoke (handleFileUpload (Some ''b.mzML'')),
        Reply 0 (RUpload (Ok (Json ''/data/b.mzML''))), Reply 0 (RTic (Rejected ''Failed to fetch''))]
        fragment_view) = [Some (40, 80), Some (40, 80)]"
  by (simp add: file_fetches_def handleFileUpload_def fetchTic_def fetchScanList_def loop_simps
      fragment_view_def browsing_def initialState_def)

text \<open>The manual path resets the chromatogram zoom only.\<close>

lemma manual_path_keeps_old_data:
  "manualPath s \<noteq> [] \<Longrightarrow>
   file_fetches [Invoke handleManualPathSubmit] s =
     [(ReqTic (manualPath s),
       s\<lparr>selectedFile := manualPath s, loading := True, chromXRange := None\<rparr>),
      (ReqScanList (manualPath s),
       s\<lparr>selectedFile := manualPath s, loading := True, chromXRange := None\<rparr>)]"
  by (simp add: file_fetches_def handleManualPathSubmit_def fetchTic_def fetchScanList_def loop_simps)

subsection \<open>Order of the two fetches\<close>

text \<open>
  Claim C4 asks that the scan-list request be issued only after the chromatogram
  request has completed, on every path. After a demo load both are in flight at
  once: the chromatogram request has not completed when the scan-list request is
  issued.
\<close>

theorem loadDemoData_fetches_concurrently:
  "requests_in_flight [Invoke loadDemoData, Reply 0 (RDemoPath (Ok (Json path)))] s =
     Some [ReqTic path, ReqScanList path]"
  by (simp add: requests_in_flight_def loadDemoData_def fetchTic_def fetchScanList_def loop_simps)

text \<open>
  So are they after a manual path and after a click in the file browser; the upload
  alone awaits the first before it issues the second.
\<close>

lemma handleManualPathSubmit_fetches_concurrently:
  "manualPath s \<noteq> [] \<Longrightarrow>
   requests_in_flight [Invoke handleManualPathSubmit] s =
     Some [ReqTic (manualPath s), ReqScanList (manualPath s)]"
  by (simp add: requests_in_flight_def handleManualPathSubmit_def fetchTic_def fetchScanList_def loop_simps)

lemma handleFileSelect_fetches_concurrently:
  "map_option length (requests_in_flight [Invoke (handleFileSelect fileName)] s) = Some 2"
  by (simp add: requests_in_flight_def handleFileSelect_def fetchTic_rev2_def fetchScanList_rev2_def
      loop_simps Let_def)

lemma handleFileUpload_fetches_in_turn:
  "requests_in_flight [Invoke (handleFileUpload (Some f)), Reply 0 (RUpload (Ok (Json path)))] s =
     Some [ReqTic path] \<and>
   requests_in_flight [Invoke (handleFileUpload (Some f)), Reply 0 (RUpload (Ok (Json path))),
      Reply 0 (RTic r)] s = Some [ReqScanList path]"
  by (simp add: requests_in_flight_def handleFileUpload_def fetchTic_def fetchScanList_def loop_simps
      split: reply.splits json.splits)

subsection \<open>Arrow keys with no scan selected\<close>

text \<open>
  The loop keeps the listener in step with the state on the dependencies of its
  effect: after every turn \<open>listens\<close> holds.
\<close>

lemma listens_rerender: "listens (listener (rerender c)) (store c)"
  by (simp add: rerender_def listens_def)

lemma steps_listens:
  assumes "steps sc c = Some c'" and "listens (listener c) (store c)"
  shows "listens (listener c') (store c')"
  using assms
proof (induction sc arbitrary: c)
  case Nil
  then show ?case by simp
next
  case (Cons g sc)
  from Cons.prems(1) obtain c1 where "steps sc (rerender c1) = Some c'"
    by (auto split: option.splits)
  moreover have "listens (listener (rerender c1)) (store (rerender c1))"
    by (simp add: listens_rerender)
  ultimately show ?case
    by (rule Cons.IH)
qed

text \<open>
  Claim C10, as amended. With a non-empty scan list and no scan selected, ArrowLeft
  and ArrowRight both resolve to index 0: the handler is the row click on scan 0, it
  sets the current scan index to 0 and calls \<^verbatim>\<open>fetchSpectrum\<close> for the retention time
  of scan 0. The spectrum request is issued when a file was selected in the render
  that registered the key listener, and for that file; when no file was selected in
  that render no request is issued. That render is the last one in which the scan
  list or the index changed, so its file need not be the one selected now.
\<close>

theorem arrow_keys_select_first_scan:
  assumes "scanList s \<noteq> []" and "currentScanIdx s = - 1"
    and "key = ''ArrowLeft'' \<or> key = ''ArrowRight''"
    and "listens l s"
  shows "handleKeyDown key l = updateSpectrumByIndex 0 l \<and>
         map_option currentScanIdx (after_from l [Key key] s) = Some 0 \<and>
         requests_from l [Key key] s =
           Some (if selectedFile l = [] then []
                 else [ReqSpectrum (selectedFile l) (scan_rt (scanList s ! 0))])"
proof -
  have l: "scanList l = scanList s" "currentScanIdx l = - 1"
    using assms(2,4) by (simp_all add: listens_def)
  have n: "0 < length (scanList l)" using assms(1) l by simp
  have k: "handleKeyDown key l = updateSpectrumByIndex 0 l"
    using assms(3) l n by (auto simp add: handleKeyDown_def Let_def)
  show ?thesis
    using n l
    by (simp add: k after_from_def requests_from_def updateSpectrumByIndex_def fetchSpectrum_def
        loop_simps)
qed

theorem arrow_keys_select_first_scan_witness:
  "scanList (browsing\<lparr>currentScanIdx := - 1\<rparr>) \<noteq> [] \<and>
   currentScanIdx (browsing\<lparr>currentScanIdx := - 1\<rparr>) = - 1 \<and>
   listens (browsing\<lparr>currentScanIdx := - 1, selectedFile := ''old.mzML''\<rparr>)
     (browsing\<lparr>currentScanIdx := - 1\<rparr>) \<and>
   map_option currentScanIdx
     (after_from (browsing\<lparr>currentScanIdx := - 1, selectedFile := ''old.mzML''\<rparr>)
        [Key ''ArrowLeft''] (browsing\<lparr>currentScanIdx := - 1\<rparr>)) = Some 0 \<and>
   requests_from (browsing\<lparr>currentScanIdx := - 1, selectedFile := ''old.mzML''\<rparr>)
     [Key ''ArrowLeft''] (browsing\<lparr>currentScanIdx := - 1\<rparr>) =
     Some [ReqSpectrum ''old.mzML'' 0]"
proof -
  have a: "scanList (browsing\<lparr>currentScanIdx := - 1\<rparr>) \<noteq> []"
    by (simp add: browsing_def initialState_def three_scans_def)
  have b: "currentScanIdx (browsing\<lparr>currentScanIdx := - 1\<rparr>) = - 1"
    by simp
  have l: "listens (browsing\<lparr>currentScanIdx := - 1, selectedFile := ''old.mzML''\<rparr>)
     (browsing\<lparr>currentScanIdx := - 1\<rparr>)"
    by (simp add: listens_def)
  show ?thesis
    using arrow_keys_select_first_scan [OF a b _ l, of "''ArrowLeft''"] a l
    by (simp add: browsing_def initialState_def three_scans_def sample_scan_def)
qed

text \<open>
  The claim as stated has a spectrum fetch on every non-empty scan list. After the
  scenario \<open>stale_scans\<close> the list is not empty, no scan is selected and no file is
  selected, in the state and in the render of the key listener: either key sets the
  index and fetches nothing.
\<close>

theorem arrow_key_without_file_fetches_nothing:
  "map_option scanList (after stale_scans initialState) = Some three_scans \<and>
   map_option currentScanIdx (after stale_scans initialState) = Some (- 1) \<and>
   map_option selectedFile (after stale_scans initialState) = Some [] \<and>
   requests_in_flight (stale_scans @ [Key ''ArrowRight'']) initialState = Some [] \<and>
   requests_in_flight (stale_scans @ [Key ''ArrowLeft'']) initialState = Some [] \<and>
   map_option currentScanIdx (after (stale_scans @ [Key ''ArrowRight'']) initialState) = Some 0"
  by (simp add: after_def requests_in_flight_def stale_scans_def loadDemoData_def
      handleFileUpload_def fetchTic_def fetchScanList_def handleKeyDown_def
      updateSpectrumByIndex_def fetchSpectrum_def loop_simps initialState_def three_scans_def
      Let_def)

text \<open>
  The file that counts is the one of the listener's render. After the same scenario a
  manual path selects a file without touching the scan list or the index, so the
  listener stays: a key then sets the index and issues no spectrum request, although
  a file is selected. With a file open and its scans loaded, a manual path to another
  file leaves the listener with the old file: the key fetches the spectrum from it.
\<close>

lemma arrow_key_reads_the_file_of_its_render:
  "map_option selectedFile
     (after (stale_scans @ [Invoke handleManualPathSubmit, Key ''ArrowRight''])
        (initialState\<lparr>manualPath := ''c.mzML''\<rparr>)) = Some ''c.mzML'' \<and>
   requests_in_flight (stale_scans @ [Invoke handleManualPathSubmit, Key ''ArrowRight''])
     (initialState\<lparr>manualPath := ''c.mzML''\<rparr>) =
     Some [ReqTic ''c.mzML'', ReqScanList ''c.mzML''] \<and>
   requests_in_flight [Invoke handleManualPathSubmit, Key ''ArrowRight'']
     (browsing\<lparr>currentScanIdx := - 1, manualPath := ''c.mzML''\<rparr>) =
     Some [ReqTic ''c.mzML'', ReqScanList ''c.mzML'', ReqSpectrum ''a.mzML'' 0]"
  by (simp add: after_def requests_in_flight_def stale_scans_def loadDemoData_def
      handleFileUpload_def handleManualPathSubmit_def fetchTic_def fetchScanList_def
      handleKeyDown_def updateSpectrumByIndex_def fetchSpectrum_def loop_simps initialState_def
      browsing_def three_scans_def sample_scan_def Let_def)

end
